theory Spec2Isabelle
  imports Main "HOL-Library.Word"
begin

section \<open>The dtsh tokenizer (tokenize.go)\<close>

text \<open>
  The Go function \<^verbatim>\<open>Tokenize(s string) []Token\<close> scans \<^verbatim>\<open>s + " "\<close> with
  \<^verbatim>\<open>for _, char := range ...\<close>, which yields the runes (Go's \<^verbatim>\<open>rune = int32\<close>)
  of the string one by one, and builds every token in a \<^verbatim>\<open>[]rune\<close> buffer.
  The model works on that rune sequence: the input is the list of runes the loop
  visits before the appended space, and a token's value is the rune buffer that
  Go converts with \<^verbatim>\<open>string(token)\<close>. The appended space is one ASCII byte, which
  is never part of a longer UTF-8 sequence, so the loop visits the runes of \<^verbatim>\<open>s\<close> and
  then the space. The function has no statement that can panic (no indexing, no map,
  no pointer, no division), and \<^verbatim>\<open>append\<close> to a nil slice allocates: the model needs
  no error value.
\<close>

subsection \<open>Data model\<close>

type_synonym rune = "32 word"

datatype TokenType = TokenRegular | TokenLiteral

record Token =
  Type :: TokenType
  Value :: "rune list"

datatype stateT = stateWhitespace | stateWord | stateString | stateLiteral | stateBackslash

text \<open>The local variables of \<^verbatim>\<open>Tokenize\<close>, threaded through the loop.\<close>

record scan =
  tokens :: "Token list"
  token :: "rune list"
  state :: stateT
  lastState :: stateT

text \<open>The character literals the scanner compares with.\<close>

abbreviation dquote :: rune where "dquote \<equiv> 0x22"
abbreviation squote :: rune where "squote \<equiv> 0x27"
abbreviation space :: rune where "space \<equiv> 0x20"
abbreviation backslash :: rune where "backslash \<equiv> 0x5C"

text \<open>The runes of an ASCII string literal, for writing inputs and values down.\<close>

definition ascii :: "string \<Rightarrow> rune list" where
  "ascii s = map of_char s"

subsection \<open>The scanner\<close>

text \<open>\<^verbatim>\<open>tokens = append(tokens, Token{Type: ty, Value: string(token)}); token = nil;
  state = stateWhitespace\<close>, the three statements every closing branch runs.\<close>

definition flush :: "TokenType \<Rightarrow> scan \<Rightarrow> scan" where
  "flush ty sc =
     sc\<lparr>tokens := tokens sc @ [\<lparr>Type = ty, Value = token sc\<rparr>],
        token := [],
        state := stateWhitespace\<rparr>"

text \<open>\<^verbatim>\<open>token = append(token, char)\<close>.\<close>

definition push :: "rune \<Rightarrow> scan \<Rightarrow> scan" where
  "push char sc = sc\<lparr>token := token sc @ [char]\<rparr>"

text \<open>One iteration of the loop body: the \<^verbatim>\<open>switch state\<close> with its inner
  \<^verbatim>\<open>switch char\<close>, case by case in the order of the source. In the last case the
  runes \<open>0x6E\<close>, \<open>0x72\<close>, \<open>0x74\<close>, \<open>0x62\<close>, \<open>0x66\<close>, \<open>0x76\<close> are the letters
  \<^verbatim>\<open>n r t b f v\<close>, and \<open>0x0A\<close>, \<open>0x0D\<close>, \<open>0x09\<close>, \<open>0x08\<close>, \<open>0x0C\<close>, \<open>0x0B\<close> are
  Go's \<^verbatim>\<open>'\n' '\r' '\t' '\b' '\f' '\v'\<close>. The assignment \<^verbatim>\<open>state = lastState\<close> after
  that inner switch reads a variable the case has not changed.\<close>

definition step :: "scan \<Rightarrow> rune \<Rightarrow> scan" where
  "step sc char =
     (case state sc of
        stateWhitespace \<Rightarrow>
          (if char = dquote then sc\<lparr>state := stateString\<rparr>
           else if char = squote then sc\<lparr>state := stateLiteral\<rparr>
           else if char = space then sc\<lparr>state := stateWhitespace\<rparr>
           else (push char sc)\<lparr>state := stateWord\<rparr>)
      | stateWord \<Rightarrow>
          (if char = space then flush TokenRegular sc
           else if char = dquote then sc\<lparr>state := stateString\<rparr>
           else if char = squote then sc\<lparr>state := stateLiteral\<rparr>
           else push char sc)
      | stateString \<Rightarrow>
          (if char = dquote then flush TokenRegular sc
           else if char = backslash then sc\<lparr>lastState := state sc, state := stateBackslash\<rparr>
           else push char sc)
      | stateLiteral \<Rightarrow>
          (if char = squote then flush TokenLiteral sc
           else if char = backslash then sc\<lparr>lastState := state sc, state := stateBackslash\<rparr>
           else push char sc)
      | stateBackslash \<Rightarrow>
          (if char = 0x6E then push 0x0A sc
           else if char = 0x72 then push 0x0D sc
           else if char = 0x74 then push 0x09 sc
           else if char = 0x62 then push 0x08 sc
           else if char = 0x66 then push 0x0C sc
           else if char = 0x76 then push 0x0B sc
           else push char sc)\<lparr>state := lastState sc\<rparr>)"

text \<open>The variables before the loop: \<^verbatim>\<open>tokens\<close> and \<^verbatim>\<open>token\<close> are nil slices,
  \<^verbatim>\<open>state\<close> is \<^verbatim>\<open>stateWhitespace\<close>, and \<^verbatim>\<open>lastState\<close> has Go's zero value,
  which is \<^verbatim>\<open>stateWhitespace\<close> too (the first \<^verbatim>\<open>iota\<close> constant).\<close>

definition init :: scan where
  "init = \<lparr>tokens = [], token = [], state = stateWhitespace, lastState = stateWhitespace\<rparr>"

text \<open>The loop over the runes of a string, from a given scan.\<close>

definition run :: "scan \<Rightarrow> rune list \<Rightarrow> scan" where
  "run sc s = foldl step sc s"

text \<open>\<^verbatim>\<open>Tokenize\<close>: the loop over \<^verbatim>\<open>s + " "\<close> from the initial variables; the
  result is \<^verbatim>\<open>tokens\<close>.\<close>

definition Tokenize :: "rune list \<Rightarrow> Token list" where
  "Tokenize s = tokens (run init (s @ [space]))"

subsection \<open>An invariant of the saved state\<close>

text \<open>\<^verbatim>\<open>stateBackslash\<close> is entered from \<^verbatim>\<open>stateString\<close> and \<^verbatim>\<open>stateLiteral\<close> only,
  and both save themselves in \<^verbatim>\<open>lastState\<close> first: whenever the scan is in
  \<^verbatim>\<open>stateBackslash\<close>, the saved state is one of the two quoted modes.\<close>

definition saved_ok :: "scan \<Rightarrow> bool" where
  "saved_ok sc =
     (state sc = stateBackslash \<longrightarrow> lastState sc = stateString \<or> lastState sc = stateLiteral)"

subsection \<open>The scanner with the origin of every buffered rune\<close>

text \<open>
  To speak about where a rune of a token's value came from, the same loop is written
  once more with a ghost tag on every rune of the buffer. The rune is \<open>Copied\<close> when
  one of the four \<^verbatim>\<open>token = append(token, char)\<close> statements of
  \<^verbatim>\<open>stateWhitespace\<close>, \<^verbatim>\<open>stateWord\<close>, \<^verbatim>\<open>stateString\<close> and \<^verbatim>\<open>stateLiteral\<close>
  appended it (the source character as it stands), and \<open>Decoded\<close> when one of the
  \<^verbatim>\<open>append\<close> statements of \<^verbatim>\<open>stateBackslash\<close> did. Nothing else differs from
  \<open>step\<close>; forgetting the tags gives back the scanner above (\<open>plain_TokenizeP\<close>).
\<close>

datatype origin = Copied | Decoded

record TokenP =
  TypeP :: TokenType
  ValueP :: "(rune \<times> origin) list"

record scanP =
  tokensP :: "TokenP list"
  tokenP :: "(rune \<times> origin) list"
  stateP :: stateT
  lastStateP :: stateT

definition flushP :: "TokenType \<Rightarrow> scanP \<Rightarrow> scanP" where
  "flushP ty sc =
     sc\<lparr>tokensP := tokensP sc @ [\<lparr>TypeP = ty, ValueP = tokenP sc\<rparr>],
        tokenP := [],
        stateP := stateWhitespace\<rparr>"

definition pushP :: "origin \<Rightarrow> rune \<Rightarrow> scanP \<Rightarrow> scanP" where
  "pushP og char sc = sc\<lparr>tokenP := tokenP sc @ [(char, og)]\<rparr>"

definition stepP :: "scanP \<Rightarrow> rune \<Rightarrow> scanP" where
  "stepP sc char =
     (case stateP sc of
        stateWhitespace \<Rightarrow>
          (if char = dquote then sc\<lparr>stateP := stateString\<rparr>
           else if char = squote then sc\<lparr>stateP := stateLiteral\<rparr>
           else if char = space then sc\<lparr>stateP := stateWhitespace\<rparr>
           else (pushP Copied char sc)\<lparr>stateP := stateWord\<rparr>)
      | stateWord \<Rightarrow>
          (if char = space then flushP TokenRegular sc
           else if char = dquote then sc\<lparr>stateP := stateString\<rparr>
           else if char = squote then sc\<lparr>stateP := stateLiteral\<rparr>
           else pushP Copied char sc)
      | stateString \<Rightarrow>
          (if char = dquote then flushP TokenRegular sc
           else if char = backslash then sc\<lparr>lastStateP := stateP sc, stateP := stateBackslash\<rparr>
           else pushP Copied char sc)
      | stateLiteral \<Rightarrow>
          (if char = squote then flushP TokenLiteral sc
           else if char = backslash then sc\<lparr>lastStateP := stateP sc, stateP := stateBackslash\<rparr>
           else pushP Copied char sc)
      | stateBackslash \<Rightarrow>
          (if char = 0x6E then pushP Decoded 0x0A sc
           else if char = 0x72 then pushP Decoded 0x0D sc
           else if char = 0x74 then pushP Decoded 0x09 sc
           else if char = 0x62 then pushP Decoded 0x08 sc
           else if char = 0x66 then pushP Decoded 0x0C sc
           else if char = 0x76 then pushP Decoded 0x0B sc
           else pushP Decoded char sc)\<lparr>stateP := lastStateP sc\<rparr>)"

definition initP :: scanP where
  "initP = \<lparr>tokensP = [], tokenP = [], stateP = stateWhitespace, lastStateP = stateWhitespace\<rparr>"

definition runP :: "scanP \<Rightarrow> rune list \<Rightarrow> scanP" where
  "runP sc s = foldl stepP sc s"

definition TokenizeP :: "rune list \<Rightarrow> TokenP list" where
  "TokenizeP s = tokensP (runP initP (s @ [space]))"

text \<open>Forgetting the tags.\<close>

definition plain :: "TokenP \<Rightarrow> Token" where
  "plain t = \<lparr>Type = TypeP t, Value = map fst (ValueP t)\<rparr>"

definition plain_scan :: "scanP \<Rightarrow> scan" where
  "plain_scan sc =
     \<lparr>tokens = map plain (tokensP sc), token = map fst (tokenP sc),
      state = stateP sc, lastState = lastStateP sc\<rparr>"

text \<open>A token is clean when its value holds no copied delimiter of its own kind: no
  copied double quote in a regular token, no copied single quote in a literal one.\<close>

definition clean :: "TokenP \<Rightarrow> bool" where
  "clean t =
     (case TypeP t of
        TokenRegular \<Rightarrow> (dquote, Copied) \<notin> set (ValueP t)
      | TokenLiteral \<Rightarrow> (squote, Copied) \<notin> set (ValueP t))"

text \<open>The mode the buffer is being filled in: the state, or the saved state while an
  escape is decoded.\<close>

definition mode :: "scanP \<Rightarrow> stateT" where
  "mode sc = (if stateP sc = stateBackslash then lastStateP sc else stateP sc)"

text \<open>The loop invariant behind cleanness: the tokens pushed so far are clean, the
  buffer is empty between tokens, a word in progress holds no copied quote of either
  kind (so it may still become a string or a literal), and a quoted span in progress
  holds no copied delimiter of its own.\<close>

definition pending_ok :: "scanP \<Rightarrow> bool" where
  "pending_ok sc =
     (list_all clean (tokensP sc) \<and>
      (case mode sc of
         stateWhitespace \<Rightarrow> tokenP sc = []
       | stateWord \<Rightarrow> (dquote, Copied) \<notin> set (tokenP sc) \<and> (squote, Copied) \<notin> set (tokenP sc)
       | stateString \<Rightarrow> (dquote, Copied) \<notin> set (tokenP sc)
       | stateLiteral \<Rightarrow> (squote, Copied) \<notin> set (tokenP sc)
       | stateBackslash \<Rightarrow> False) \<and>
      (stateP sc = stateBackslash \<longrightarrow> lastStateP sc = stateString \<or> lastStateP sc = stateLiteral))"


section \<open>Basic facts about the scanner\<close>

lemma run_Nil [simp]: "run sc [] = sc"
  by (simp add: run_def)

lemma run_Cons [simp]: "run sc (c # cs) = run (step sc c) cs"
  by (simp add: run_def)

lemma run_append: "run sc (xs @ ys) = run (run sc xs) ys"
  by (simp add: run_def)

lemma run_snoc: "run sc (xs @ [c]) = step (run sc xs) c"
  by (simp add: run_def)

text \<open>The result is what the appended space leaves in \<^verbatim>\<open>tokens\<close> after the scan
  of the input itself.\<close>

lemma Tokenize_step: "Tokenize s = tokens (step (run init s) space)"
  by (simp add: Tokenize_def run_snoc)

lemma push_sel [simp]:
  "tokens (push c sc) = tokens sc"
  "token (push c sc) = token sc @ [c]"
  "state (push c sc) = state sc"
  "lastState (push c sc) = lastState sc"
  by (simp_all add: push_def)

lemma flush_sel [simp]:
  "tokens (flush ty sc) = tokens sc @ [\<lparr>Type = ty, Value = token sc\<rparr>]"
  "token (flush ty sc) = []"
  "state (flush ty sc) = stateWhitespace"
  "lastState (flush ty sc) = lastState sc"
  by (simp_all add: flush_def)

text \<open>The loop body, one lemma per case of \<^verbatim>\<open>switch state\<close>.\<close>

lemma step_Whitespace:
  "state sc = stateWhitespace \<Longrightarrow>
   step sc c =
     (if c = dquote then sc\<lparr>state := stateString\<rparr>
      else if c = squote then sc\<lparr>state := stateLiteral\<rparr>
      else if c = space then sc\<lparr>state := stateWhitespace\<rparr>
      else (push c sc)\<lparr>state := stateWord\<rparr>)"
  by (simp add: step_def)

lemma step_Word:
  "state sc = stateWord \<Longrightarrow>
   step sc c =
     (if c = space then flush TokenRegular sc
      else if c = dquote then sc\<lparr>state := stateString\<rparr>
      else if c = squote then sc\<lparr>state := stateLiteral\<rparr>
      else push c sc)"
  by (simp add: step_def)

lemma step_String:
  "state sc = stateString \<Longrightarrow>
   step sc c =
     (if c = dquote then flush TokenRegular sc
      else if c = backslash then sc\<lparr>lastState := stateString, state := stateBackslash\<rparr>
      else push c sc)"
  by (simp add: step_def)

lemma step_Literal:
  "state sc = stateLiteral \<Longrightarrow>
   step sc c =
     (if c = squote then flush TokenLiteral sc
      else if c = backslash then sc\<lparr>lastState := stateLiteral, state := stateBackslash\<rparr>
      else push c sc)"
  by (simp add: step_def)

text \<open>The escape case appends exactly one rune, flushes nothing and resumes the
  saved state.\<close>

lemma step_Backslash:
  "state sc = stateBackslash \<Longrightarrow>
   tokens (step sc c) = tokens sc \<and> state (step sc c) = lastState sc \<and>
   lastState (step sc c) = lastState sc \<and> (\<exists>d. token (step sc c) = token sc @ [d])"
  by (simp add: step_def push_def)

lemmas step_cases = step_Whitespace step_Word step_String step_Literal

lemmas scanner_defs = Tokenize_def run_def init_def step_def push_def flush_def ascii_def

subsection \<open>The saved state\<close>

text \<open>The invariant holds initially and every iteration keeps it.\<close>

lemma saved_ok_init: "saved_ok init"
  by (simp add: saved_ok_def init_def)

lemma saved_ok_step: "saved_ok sc \<Longrightarrow> saved_ok (step sc c)"
  by (cases "state sc")
     (auto simp: saved_ok_def step_cases dest: step_Backslash [where c = c])

lemma saved_ok_run: "saved_ok sc \<Longrightarrow> saved_ok (run sc s)"
  by (induction s arbitrary: sc) (simp_all add: saved_ok_step)

subsection \<open>What the appended space does\<close>

lemma step_space_tokens:
  "saved_ok sc \<Longrightarrow> tokens (step (step sc space) space) = tokens (step sc space)"
  by (cases "state sc")
     (auto simp: saved_ok_def step_cases dest: step_Backslash [where c = space])

lemma step_space_quoted:
  assumes "saved_ok sc" and "state sc \<in> {stateString, stateLiteral, stateBackslash}"
  shows "tokens (step sc space) = tokens sc \<and> token (step sc space) = token sc @ [space]
         \<and> state (step sc space) \<in> {stateString, stateLiteral}"
  using assms
  by (cases "state sc") (auto simp: saved_ok_def step_cases step_def)



subsection \<open>A word without separators\<close>

lemma run_Word:
  "state sc = stateWord \<Longrightarrow> space \<notin> set s \<Longrightarrow> dquote \<notin> set s \<Longrightarrow> squote \<notin> set s \<Longrightarrow>
   run sc s = sc\<lparr>token := token sc @ s\<rparr>"
proof (induction s arbitrary: sc)
  case Nil
  then show ?case by simp
next
  case (Cons c cs)
  then have "step sc c = push c sc"
    by (simp add: step_Word)
  with Cons show ?case
    by (simp add: push_def)
qed

subsection \<open>Counting tokens\<close>

text \<open>Every iteration pushes at most one token, and a word in progress has already
  consumed a rune that no token accounts for yet.\<close>

lemma step_count:
  "length (tokens (step sc c)) + (if state (step sc c) = stateWord then 1 else 0)
     \<le> Suc (length (tokens sc) + (if state sc = stateWord then 1 else 0))"
  by (cases "state sc") (auto simp: step_cases dest: step_Backslash [where c = c])

lemma run_count:
  "length (tokens (run sc s)) + (if state (run sc s) = stateWord then 1 else 0)
     \<le> length (tokens sc) + (if state sc = stateWord then 1 else 0) + length s"
proof (induction s arbitrary: sc)
  case Nil
  then show ?case by simp
next
  case (Cons c cs)
  from Cons.IH [of "step sc c"] step_count [of sc c]
  show ?case by simp
qed

lemma step_space_count:
  "length (tokens (step sc space))
     \<le> length (tokens sc) + (if state sc = stateWord then 1 else 0)"
  by (cases "state sc") (auto simp: step_cases dest: step_Backslash [where c = space])

subsection \<open>The tagged scanner\<close>

text \<open>Forgetting the tags commutes with every iteration, so the tagged scanner
  computes the tokens of \<open>Tokenize\<close>, in the same order, with a tag on every rune.\<close>

lemma plain_stepP: "plain_scan (stepP sc c) = step (plain_scan sc) c"
  by (cases "stateP sc")
     (simp_all add: plain_scan_def stepP_def step_def pushP_def push_def flushP_def
        flush_def plain_def)

lemma plain_runP: "plain_scan (runP sc s) = run (plain_scan sc) s"
  unfolding runP_def run_def
  by (induction s arbitrary: sc) (simp_all add: plain_stepP)

lemma plain_initP: "plain_scan initP = init"
  by (simp add: plain_scan_def initP_def init_def)

lemma plain_TokenizeP: "map plain (TokenizeP s) = Tokenize s"
proof -
  have "tokens (plain_scan (runP initP (s @ [space]))) = Tokenize s"
    by (simp only: plain_runP plain_initP Tokenize_def)
  then show ?thesis
    by (simp add: plain_scan_def TokenizeP_def)
qed

lemma pending_ok_init: "pending_ok initP"
  by (simp add: pending_ok_def initP_def mode_def)

lemma pending_ok_step: "pending_ok sc \<Longrightarrow> pending_ok (stepP sc c)"
  by (cases "stateP sc")
     (auto simp: pending_ok_def mode_def stepP_def pushP_def flushP_def clean_def)

lemma pending_ok_run: "pending_ok sc \<Longrightarrow> pending_ok (runP sc s)"
  unfolding runP_def
  by (induction s arbitrary: sc) (simp_all add: pending_ok_step)

lemmas scannerP_defs = TokenizeP_def runP_def initP_def stepP_def pushP_def flushP_def plain_def


section \<open>The properties of the specification\<close>

subsection \<open>C1: a quote inside a word\<close>

text \<open>
  C1, as the specification states it: for the input \<^verbatim>\<open>ab"cd"ef\<close> the result is exactly
  one token, regular, with value \<^verbatim>\<open>abcdef\<close>. The scanner does not do that. What
  holds, and is proved here as the amended C1: a double quote met in \<^verbatim>\<open>stateWord\<close>
  only changes the state to \<^verbatim>\<open>stateString\<close> (nothing is flushed, the buffer is kept),
  so \<^verbatim>\<open>ab"cd"\<close> is the single regular token \<^verbatim>\<open>abcd\<close>; the closing quote then pushes
  that token and returns to \<^verbatim>\<open>stateWhitespace\<close>, so for \<^verbatim>\<open>ab"cd"ef\<close> the result is
  two regular tokens, \<^verbatim>\<open>abcd\<close> and \<^verbatim>\<open>ef\<close>.
\<close>

theorem quote_in_word_appends:
  "step (sc\<lparr>state := stateWord\<rparr>) dquote = sc\<lparr>state := stateString\<rparr>
   \<and> Tokenize (ascii ''ab'' @ dquote # ascii ''cd'' @ [dquote])
     = [\<lparr>Type = TokenRegular, Value = ascii ''abcd''\<rparr>]
   \<and> Tokenize (ascii ''ab'' @ dquote # ascii ''cd'' @ dquote # ascii ''ef'')
     = [\<lparr>Type = TokenRegular, Value = ascii ''abcd''\<rparr>,
        \<lparr>Type = TokenRegular, Value = ascii ''ef''\<rparr>]"
  by (simp add: scanner_defs)

text \<open>The input \<^verbatim>\<open>ab"cd"ef\<close> refutes C1 as stated: the result is not the one token
  \<^verbatim>\<open>abcdef\<close>, and it has two tokens.\<close>

theorem quote_in_word_counterexample:
  "Tokenize (ascii ''ab'' @ dquote # ascii ''cd'' @ dquote # ascii ''ef'')
     \<noteq> [\<lparr>Type = TokenRegular, Value = ascii ''abcdef''\<rparr>]
   \<and> length (Tokenize (ascii ''ab'' @ dquote # ascii ''cd'' @ dquote # ascii ''ef'')) = 2"
  by (simp add: scanner_defs)

subsection \<open>C2: an unterminated quote is dropped\<close>

text \<open>
  C2: whenever the scan of the input ends in \<^verbatim>\<open>stateString\<close>, \<^verbatim>\<open>stateLiteral\<close> or
  \<^verbatim>\<open>stateBackslash\<close> (an unterminated quote, or a backslash at the end of one), the
  appended space pushes no token: the result is exactly the tokens completed before,
  the space goes into the pending buffer, which is never flushed, and the scan ends
  inside the quote. In particular \<^verbatim>\<open>"unterminated\<close> gives the empty sequence.
\<close>

theorem unterminated_dropped:
  assumes "state (run init s) \<in> {stateString, stateLiteral, stateBackslash}"
  shows "Tokenize s = tokens (run init s)
         \<and> token (run init (s @ [space])) = token (run init s) @ [space]
         \<and> state (run init (s @ [space])) \<in> {stateString, stateLiteral}
         \<and> Tokenize (dquote # ascii ''unterminated'') = []"
proof -
  have "saved_ok (run init s)"
    by (rule saved_ok_run [OF saved_ok_init])
  from step_space_quoted [OF this assms]
  have "Tokenize s = tokens (run init s)
         \<and> token (run init (s @ [space])) = token (run init s) @ [space]
         \<and> state (run init (s @ [space])) \<in> {stateString, stateLiteral}"
    by (simp add: Tokenize_step run_snoc)
  moreover have "Tokenize (dquote # ascii ''unterminated'') = []"
    by (simp add: scanner_defs)
  ultimately show ?thesis by simp
qed

text \<open>At the input \<^verbatim>\<open>ab "cd\<close>: the word \<^verbatim>\<open>ab\<close> is returned, and the open string stays
  in the buffer with the appended space.\<close>

theorem unterminated_dropped_witness:
  "state (run init (ascii ''ab '' @ dquote # ascii ''cd''))
     \<in> {stateString, stateLiteral, stateBackslash}
   \<and> Tokenize (ascii ''ab '' @ dquote # ascii ''cd'')
     = [\<lparr>Type = TokenRegular, Value = ascii ''ab''\<rparr>]
   \<and> token (run init ((ascii ''ab '' @ dquote # ascii ''cd'') @ [space])) = ascii ''cd ''
   \<and> state (run init ((ascii ''ab '' @ dquote # ascii ''cd'') @ [space])) = stateString"
  using unterminated_dropped [of "ascii ''ab '' @ dquote # ascii ''cd''"]
  by (simp add: scanner_defs)

subsection \<open>C3: totality\<close>

text \<open>
  C3: \<open>Tokenize\<close> returns a token sequence for every input, the empty string included,
  and has no error case. The loop runs once per rune of a finite string and no
  statement of it can fail, so the model is a total function with no error value; the
  sequence it returns is finite, with at most one token per rune of the input, and
  the empty input gives the empty sequence.
\<close>

theorem Tokenize_total:
  "(\<exists>ts. Tokenize s = ts \<and> length ts \<le> length s) \<and> Tokenize [] = []"
proof -
  from run_count [of init s] step_space_count [of "run init s"]
  have "length (Tokenize s) \<le> length s"
    by (simp add: Tokenize_step init_def)
  moreover have "Tokenize [] = []"
    by (simp add: scanner_defs)
  ultimately show ?thesis by simp
qed

subsection \<open>C4: a closing quote ends the token\<close>

text \<open>
  C4: a closing quote pushes the buffer as a token, clears it and moves to
  \<^verbatim>\<open>stateWhitespace\<close>, whatever character follows (the next state does not depend on
  it): in \<^verbatim>\<open>stateString\<close> for a double quote, in \<^verbatim>\<open>stateLiteral\<close> for a single quote.
  So \<^verbatim>\<open>"abc"def\<close> gives exactly two tokens, regular \<^verbatim>\<open>abc\<close> and regular \<^verbatim>\<open>def\<close>.
\<close>

theorem closing_quote_to_Whitespace:
  "step (sc\<lparr>state := stateString\<rparr>) dquote
     = sc\<lparr>tokens := tokens sc @ [\<lparr>Type = TokenRegular, Value = token sc\<rparr>],
          token := [], state := stateWhitespace\<rparr>
   \<and> step (sc\<lparr>state := stateLiteral\<rparr>) squote
     = sc\<lparr>tokens := tokens sc @ [\<lparr>Type = TokenLiteral, Value = token sc\<rparr>],
          token := [], state := stateWhitespace\<rparr>
   \<and> Tokenize (dquote # ascii ''abc'' @ dquote # ascii ''def'')
     = [\<lparr>Type = TokenRegular, Value = ascii ''abc''\<rparr>,
        \<lparr>Type = TokenRegular, Value = ascii ''def''\<rparr>]"
  by (simp add: scanner_defs)

subsection \<open>C5: escapes in both kinds of quotes\<close>

text \<open>
  C5: a backslash and the character after it are decoded in the same way in
  \<^verbatim>\<open>stateString\<close> and in \<^verbatim>\<open>stateLiteral\<close>: from either mode, and for every character
  \<open>c\<close>, the two iterations append the same rune to the buffer, push no token, and
  return to the mode they started in. An \<^verbatim>\<open>n\<close> after the backslash appends a newline
  (rune 10). So \<^verbatim>\<open>'raw\ntext'\<close> is one literal token whose value has a newline between
  \<^verbatim>\<open>raw\<close> and \<^verbatim>\<open>text\<close>, and the same span in double quotes is one regular token with
  the same value.
\<close>

theorem escapes_same_in_both_quotes:
  "token (run (sc\<lparr>state := stateString\<rparr>) [backslash, c])
     = token (run (sc\<lparr>state := stateLiteral\<rparr>) [backslash, c])
   \<and> tokens (run (sc\<lparr>state := stateString\<rparr>) [backslash, c]) = tokens sc
   \<and> tokens (run (sc\<lparr>state := stateLiteral\<rparr>) [backslash, c]) = tokens sc
   \<and> state (run (sc\<lparr>state := stateString\<rparr>) [backslash, c]) = stateString
   \<and> state (run (sc\<lparr>state := stateLiteral\<rparr>) [backslash, c]) = stateLiteral
   \<and> token (run (sc\<lparr>state := stateLiteral\<rparr>) [backslash, 0x6E]) = token sc @ [0x0A]
   \<and> Tokenize (squote # ascii ''raw'' @ backslash # ascii ''ntext'' @ [squote])
     = [\<lparr>Type = TokenLiteral, Value = ascii ''raw'' @ 0x0A # ascii ''text''\<rparr>]
   \<and> Tokenize (dquote # ascii ''raw'' @ backslash # ascii ''ntext'' @ [dquote])
     = [\<lparr>Type = TokenRegular, Value = ascii ''raw'' @ 0x0A # ascii ''text''\<rparr>]"
  by (simp add: scanner_defs)

subsection \<open>C6: delimiters in a token's value\<close>

text \<open>
  C6: for every input and every token returned, a delimiter of the token's own kind in
  its value was put there by escape decoding and never copied from the source: a
  regular token (from a double-quoted span or from a bare word) holds no copied
  double quote, and a literal token holds no copied single quote. The tokens are
  those of the tagged scanner, which are the tokens of \<open>Tokenize\<close> with the origin of
  every rune.
\<close>

theorem delimiters_only_decoded:
  "map plain (TokenizeP s) = Tokenize s
   \<and> (\<forall>t \<in> set (TokenizeP s).
        (TypeP t = TokenRegular \<longrightarrow> (dquote, Copied) \<notin> set (ValueP t))
      \<and> (TypeP t = TokenLiteral \<longrightarrow> (squote, Copied) \<notin> set (ValueP t)))"
proof -
  have "pending_ok (runP initP (s @ [space]))"
    by (rule pending_ok_run [OF pending_ok_init])
  then have "list_all clean (TokenizeP s)"
    by (simp add: pending_ok_def TokenizeP_def)
  then have "\<forall>t \<in> set (TokenizeP s).
        (TypeP t = TokenRegular \<longrightarrow> (dquote, Copied) \<notin> set (ValueP t))
      \<and> (TypeP t = TokenLiteral \<longrightarrow> (squote, Copied) \<notin> set (ValueP t))"
    by (auto simp: list_all_iff clean_def)
  with plain_TokenizeP [of s] show ?thesis by simp
qed

text \<open>At the input \<^verbatim>\<open>'a\'b' "'\""\<close>: the single quote in the literal token and the
  double quote in the regular token are decoded ones; the single quote in the regular
  token is a copied one, which is not a delimiter of its kind.\<close>

theorem delimiters_only_decoded_witness:
  "TokenizeP (squote # ascii ''a'' @ backslash # squote # ascii ''b'' @ squote #
              space # dquote # squote # backslash # dquote # [dquote])
     = [\<lparr>TypeP = TokenLiteral, ValueP = [(0x61, Copied), (squote, Decoded), (0x62, Copied)]\<rparr>,
        \<lparr>TypeP = TokenRegular, ValueP = [(squote, Copied), (dquote, Decoded)]\<rparr>]
   \<and> Tokenize (squote # ascii ''a'' @ backslash # squote # ascii ''b'' @ squote #
              space # dquote # squote # backslash # dquote # [dquote])
     = [\<lparr>Type = TokenLiteral, Value = [0x61, squote, 0x62]\<rparr>,
        \<lparr>Type = TokenRegular, Value = [squote, dquote]\<rparr>]"
  using delimiters_only_decoded [of "squote # ascii ''a'' @ backslash # squote # ascii ''b'' @
              squote # space # dquote # squote # backslash # dquote # [dquote]"]
  by (simp add: scannerP_defs ascii_def)

subsection \<open>C7: tokenizing a decoded value again\<close>

text \<open>
  C7, as the specification states it: a decoded token value without quotes and
  escapes tokenizes to exactly one token with that value. That fails for a value with
  a space in it and for the empty value. What holds, and is proved here as the amended
  C7: every non-empty value with no space, no double quote and no single quote in it
  (a backslash may occur: \<^verbatim>\<open>stateWord\<close> copies it) tokenizes to exactly one token,
  regular, whose value is the input.
\<close>

theorem plain_word_one_token:
  assumes "s \<noteq> []" and "space \<notin> set s" and "dquote \<notin> set s" and "squote \<notin> set s"
  shows "Tokenize s = [\<lparr>Type = TokenRegular, Value = s\<rparr>]"
proof -
  from assms obtain c cs where s: "s = c # cs"
    by (cases s) auto
  with assms have "step init c = (push c init)\<lparr>state := stateWord\<rparr>"
    by (simp add: step_Whitespace init_def)
  with assms s show ?thesis
    by (simp add: Tokenize_step run_Word step_Word init_def push_def)
qed

theorem plain_word_one_token_witness:
  "ascii ''abc'' \<noteq> [] \<and> space \<notin> set (ascii ''abc'') \<and> dquote \<notin> set (ascii ''abc'')
   \<and> squote \<notin> set (ascii ''abc'')
   \<and> Tokenize (ascii ''abc'') = [\<lparr>Type = TokenRegular, Value = ascii ''abc''\<rparr>]"
  using plain_word_one_token [of "ascii ''abc''"]
  by (simp add: ascii_def)

text \<open>The value \<^verbatim>\<open>a b\<close> refutes C7 as stated: it is the decoded value of the token of
  \<^verbatim>\<open>"a b"\<close>, it has no quote and no backslash, and it tokenizes to the two tokens \<^verbatim>\<open>a\<close>
  and \<^verbatim>\<open>b\<close>. So does the empty value, the decoded value of the token of \<^verbatim>\<open>""\<close>, which
  tokenizes to no token.\<close>

theorem decoded_value_counterexample:
  "Tokenize (dquote # ascii ''a b'' @ [dquote]) = [\<lparr>Type = TokenRegular, Value = ascii ''a b''\<rparr>]
   \<and> dquote \<notin> set (ascii ''a b'') \<and> squote \<notin> set (ascii ''a b'')
   \<and> backslash \<notin> set (ascii ''a b'')
   \<and> Tokenize (ascii ''a b'')
       = [\<lparr>Type = TokenRegular, Value = ascii ''a''\<rparr>, \<lparr>Type = TokenRegular, Value = ascii ''b''\<rparr>]
   \<and> map Value (Tokenize (ascii ''a b'')) \<noteq> [ascii ''a b'']
   \<and> Tokenize [dquote, dquote] = [\<lparr>Type = TokenRegular, Value = []\<rparr>]
   \<and> Tokenize [] = []"
  by (simp add: scanner_defs)

subsection \<open>C8: inputs of spaces only\<close>




subsection \<open>C9: one more space at the end\<close>

text \<open>
  C9: for every input \<open>s\<close>, \<open>Tokenize\<close> of \<open>s\<close> followed by one space is \<open>Tokenize\<close> of
  \<open>s\<close>: after the appended space the scan is between tokens or inside a quote, and a
  second space pushes nothing in either.
\<close>

theorem trailing_space_irrelevant: "Tokenize (s @ [space]) = Tokenize s"
  using step_space_tokens [OF saved_ok_run [OF saved_ok_init, of s]]
  by (simp add: Tokenize_step run_snoc)

subsection \<open>C10: an escaped delimiter\<close>

text \<open>
  C10: an escaped delimiter does not close the span and stays in the value. From every
  scan in \<^verbatim>\<open>stateString\<close>, a backslash followed by a double quote appends that double
  quote to the buffer, whatever the buffer holds (also when it is empty, at the start
  of the span), pushes no token and leaves the scan in \<^verbatim>\<open>stateString\<close>; nothing else
  changes but \<^verbatim>\<open>lastState\<close>. The same holds in \<^verbatim>\<open>stateLiteral\<close> for a backslash
  followed by a single quote. So \<^verbatim>\<open>"a\"b"\<close> is one regular token with value \<^verbatim>\<open>a"b\<close>,
  and \<^verbatim>\<open>'a\'b'\<close> is one literal token with value \<^verbatim>\<open>a'b\<close>; a span that holds the
  escaped delimiter alone is one token whose value is that delimiter.
\<close>

theorem escaped_delimiter_kept:
  "run (sc\<lparr>state := stateString\<rparr>) [backslash, dquote]
     = sc\<lparr>token := token sc @ [dquote], state := stateString, lastState := stateString\<rparr>
   \<and> run (sc\<lparr>state := stateLiteral\<rparr>) [backslash, squote]
     = sc\<lparr>token := token sc @ [squote], state := stateLiteral, lastState := stateLiteral\<rparr>
   \<and> Tokenize (dquote # ascii ''a'' @ backslash # dquote # ascii ''b'' @ [dquote])
     = [\<lparr>Type = TokenRegular, Value = ascii ''a'' @ dquote # ascii ''b''\<rparr>]
   \<and> Tokenize (squote # ascii ''a'' @ backslash # squote # ascii ''b'' @ [squote])
     = [\<lparr>Type = TokenLiteral, Value = ascii ''a'' @ squote # ascii ''b''\<rparr>]
   \<and> Tokenize [dquote, backslash, dquote, dquote] = [\<lparr>Type = TokenRegular, Value = [dquote]\<rparr>]
   \<and> Tokenize [squote, backslash, squote, squote] = [\<lparr>Type = TokenLiteral, Value = [squote]\<rparr>]"
  by (simp add: scanner_defs)

end
